theory Spec2Isabelle
  imports Main "HOL-Library.Word"
begin

section \<open>HostInfoPosix: the POSIX host-information adapter of LLDB\<close>

text \<open>
  This theory embeds \<^verbatim>\<open>lldb/source/Host/posix/HostInfoPosix.cpp\<close>. The unit is a layer of
  thin wrappers over the C library, so the model has three parts: the values the unit
  handles (strings, paths, database entries), the operating system as the unit sees it
  (one function per C library call, giving what the call returns), and the unit's own
  functions, written over those.
\<close>

subsection \<open>Strings\<close>

text \<open>
  A \<^verbatim>\<open>std::string\<close> is a byte sequence with an explicit length and may hold any byte.
  Handing it to a C interface through \<^verbatim>\<open>c_str()\<close> shows the callee the bytes before the
  first NUL only.
\<close>

definition NUL :: char where
  "NUL = CHR 0x00"

definition c_str :: "string \<Rightarrow> string" where
  "c_str s = takeWhile (\<lambda>c. c \<noteq> NUL) s"

subsection \<open>Paths\<close>

text \<open>
  Modelled from the spec: the path value type \<^verbatim>\<open>FileSpec\<close> (lldb/Utility/FileSpec.h) and
  its interned string \<^verbatim>\<open>ConstString\<close> are not part of this unit. The spec treats a path as
  "an opaque pair of directory and filename strings"; a component that is the empty
  string tests as false, and a path tests as true when either component does.
\<close>

record FileSpec =
  m_directory :: string
  m_filename :: string

definition ConstString_bool :: "string \<Rightarrow> bool" where
  "ConstString_bool s = (s \<noteq> [])"

definition FileSpec_bool :: "FileSpec \<Rightarrow> bool" where
  "FileSpec_bool f = (ConstString_bool (m_filename f) \<or> ConstString_bool (m_directory f))"

text \<open>
  Modelled from the spec: \<^verbatim>\<open>llvm::sys::path::parent_path\<close> and \<^verbatim>\<open>filename\<close>
  (llvm/Support/Path.h) are not part of this unit. The spec describes the parent as
  obtained "by textual trimming of the trailing path segment": everything after the
  last separator goes, and the separator with it. A path without a separator has the
  empty parent, and so has the root directory \<^verbatim>\<open>/\<close>.
\<close>

definition parent_path :: "string \<Rightarrow> string" where
  "parent_path p = rev (drop 1 (dropWhile (\<lambda>c. c \<noteq> CHR ''/'') (rev p)))"

definition filename :: "string \<Rightarrow> string" where
  "filename p = rev (takeWhile (\<lambda>c. c \<noteq> CHR ''/'') (rev p))"

text \<open>
  Modelled from the spec: the \<^verbatim>\<open>FileSpec\<close> constructor from a path string and
  \<^verbatim>\<open>FileSpec::GetPath\<close> are not part of this unit. The constructor splits the string into
  the two components of the pair; \<^verbatim>\<open>GetPath\<close> joins them again, with a separator between
  them when both are present and the directory does not end in one.
\<close>

definition FileSpec_of_path :: "string \<Rightarrow> FileSpec" where
  "FileSpec_of_path p = \<lparr>m_directory = parent_path p, m_filename = filename p\<rparr>"

definition GetPath :: "FileSpec \<Rightarrow> string" where
  "GetPath f =
     m_directory f
     @ (if m_directory f \<noteq> [] \<and> m_filename f \<noteq> [] \<and> last (m_directory f) \<noteq> CHR ''/''
        then ''/'' else [])
     @ m_filename f"

subsection \<open>The build and the operating system\<close>

text \<open>
  The unit is compiled differently for Android: below API level 21 the reentrant user
  lookup is missing, and on every Android the group lookup is compiled out and replaced
  by an assertion. \<^verbatim>\<open>PATH_MAX\<close> comes from \<^verbatim>\<open>limits.h\<close>.
\<close>

record build =
  ANDROID_API :: "nat option"
  NDEBUG :: bool
  PATH_MAX :: nat

definition ANDROID :: "build \<Rightarrow> bool" where
  "ANDROID b = (ANDROID_API b \<noteq> None)"

definition USE_GETPWUID :: "build \<Rightarrow> bool" where
  "USE_GETPWUID b = (case ANDROID_API b of None \<Rightarrow> False | Some api \<Rightarrow> api < 21)"

type_synonym id_t = "32 word"
type_synonym c_int = "32 word"

record passwd =
  pw_name :: string

record group =
  gr_name :: string

record hostent =
  h_name :: string

text \<open>
  What the host answers. Each field stands for one call the unit makes and gives what
  the call hands back: a return code where the C function has one, and \<open>None\<close> for a
  null pointer. \<open>gethostname\<close> takes the length it may write and gives the C string the
  buffer holds afterwards (the unit terminates the buffer itself). The reentrant
  lookups take the size of the caller's buffer and give the return code together with
  the result pointer. \<open>getenv\<close> is keyed by the C string it receives. \<open>GetShlibDir\<close> is
  the directory of the debugger's shared library, as the host-info base reports it.
\<close>

record host =
  gethostname :: "nat \<Rightarrow> c_int \<times> string"
  gethostbyname :: "string \<Rightarrow> hostent option"
  getpwuid :: "id_t \<Rightarrow> passwd option"
  getpwuid_r :: "id_t \<Rightarrow> nat \<Rightarrow> c_int \<times> passwd option"
  getgrgid_r :: "id_t \<Rightarrow> nat \<Rightarrow> c_int \<times> group option"
  getgrgid :: "id_t \<Rightarrow> group option"
  getenv :: "string \<Rightarrow> string option"
  GetShlibDir :: FileSpec

text \<open>
  The resolver hooks also report the database lookups they issue, in order: which lookup
  runs, and when the second one runs, is part of what the group hook promises.
\<close>

datatype db_call =
  Call_getpwuid id_t
  | Call_getpwuid_r id_t
  | Call_getgrgid_r id_t
  | Call_getgrgid id_t

datatype abort = Assertion_failed string

subsection \<open>The POSIX facade\<close>

text \<open>
  \<^verbatim>\<open>bool GetHostname(std::string &s)\<close>: the result is the return value and the string
  \<open>s\<close> after the call.
\<close>

definition GetHostname :: "build \<Rightarrow> host \<Rightarrow> string \<Rightarrow> bool \<times> string" where
  "GetHostname b h s =
     (case gethostname h (PATH_MAX b - 1) of
        (rc, hostname) \<Rightarrow>
          if rc = 0 then
            (case gethostbyname h hostname of
               Some e \<Rightarrow> (True, h_name e)
             | None \<Rightarrow> (True, hostname))
          else (False, s))"

text \<open>
  \<^verbatim>\<open>bool GetEnvironmentVar(const std::string &var_name, std::string &var)\<close>: the result
  is the return value and the string \<open>var\<close> after the call.
\<close>

definition GetEnvironmentVar :: "host \<Rightarrow> string \<Rightarrow> string \<Rightarrow> bool \<times> string" where
  "GetEnvironmentVar h var_name var =
     (case getenv h (c_str var_name) of
        Some pvar \<Rightarrow> (True, pvar)
      | None \<Rightarrow> (False, var))"

subsection \<open>The user and group name resolver\<close>

definition DoGetUserName :: "build \<Rightarrow> host \<Rightarrow> id_t \<Rightarrow> string option \<times> db_call list" where
  "DoGetUserName b h uid =
     (if USE_GETPWUID b then
        (case getpwuid h uid of
           Some user_info \<Rightarrow> (Some (pw_name user_info), [Call_getpwuid uid])
         | None \<Rightarrow> (None, [Call_getpwuid uid]))
      else
        (case getpwuid_r h uid (PATH_MAX b) of
           (rc, user_info_ptr) \<Rightarrow>
             if rc = 0 \<and> user_info_ptr \<noteq> None
             then (Some (pw_name (the user_info_ptr)), [Call_getpwuid_r uid])
             else (None, [Call_getpwuid_r uid])))"

text \<open>
  On Android the body is \<^verbatim>\<open>assert(false && "...")\<close> followed by the final
  \<^verbatim>\<open>return llvm::None\<close>: the assertion stops the program unless it is compiled out.
\<close>

definition DoGetGroupName ::
  "build \<Rightarrow> host \<Rightarrow> id_t \<Rightarrow> abort + (string option \<times> db_call list)" where
  "DoGetGroupName b h gid =
     (if \<not> ANDROID b then
        (case getgrgid_r h gid (PATH_MAX b) of
           (rc, group_info_ptr) \<Rightarrow>
             if rc = 0 then
               (case group_info_ptr of
                  Some group_info \<Rightarrow> Inr (Some (gr_name group_info), [Call_getgrgid_r gid])
                | None \<Rightarrow> Inr (None, [Call_getgrgid_r gid]))
             else
               (case getgrgid h gid of
                  Some group_info \<Rightarrow>
                    Inr (Some (gr_name group_info), [Call_getgrgid_r gid, Call_getgrgid gid])
                | None \<Rightarrow> Inr (None, [Call_getgrgid_r gid, Call_getgrgid gid])))
      else if NDEBUG b then Inr (None, [])
      else Inl (Assertion_failed ''getgrgid_r() not supported on Android''))"

subsection \<open>Path derivation\<close>

text \<open>
  \<^verbatim>\<open>bool ComputePathRelativeToLibrary(FileSpec &file_spec, llvm::StringRef dir)\<close>: the
  result is the return value and \<open>file_spec\<close> after the call. The log calls write to
  the logger only and have no part in either, so they are left out.
\<close>

definition ComputePathRelativeToLibrary ::
  "host \<Rightarrow> FileSpec \<Rightarrow> string \<Rightarrow> bool \<times> FileSpec" where
  "ComputePathRelativeToLibrary h file_spec dir =
     (let lldb_file_spec = GetShlibDir h in
      if \<not> FileSpec_bool lldb_file_spec then (False, file_spec)
      else
        let raw_path = GetPath lldb_file_spec;
            parent = parent_path raw_path;
            raw_path = (if parent \<noteq> [] then parent @ dir else raw_path);
            file_spec = file_spec\<lparr>m_directory := raw_path\<rparr>
        in (ConstString_bool (m_directory file_spec), file_spec))"

definition ComputeSupportExeDirectory :: "host \<Rightarrow> FileSpec \<Rightarrow> bool \<times> FileSpec" where
  "ComputeSupportExeDirectory h file_spec = ComputePathRelativeToLibrary h file_spec ''/bin''"

definition ComputeHeaderDirectory :: "FileSpec \<Rightarrow> bool \<times> FileSpec" where
  "ComputeHeaderDirectory file_spec =
     (let temp_file = FileSpec_of_path ''/opt/local/include/lldb'' in
      (True, file_spec\<lparr>m_directory := c_str (GetPath temp_file)\<rparr>))"

subsection \<open>Hosts and builds for the worked examples\<close>

text \<open>
  A Linux build, and a host on which every query fails; the examples below override the
  one answer they are about.
\<close>

definition linux_build :: build where
  "linux_build = \<lparr>ANDROID_API = None, NDEBUG = False, PATH_MAX = 4096\<rparr>"

definition silent_host :: host where
  "silent_host =
     \<lparr>gethostname = (\<lambda>_. (-1, [])),
      gethostbyname = (\<lambda>_. None),
      getpwuid = (\<lambda>_. None),
      getpwuid_r = (\<lambda>_ _. (2, None)),
      getgrgid_r = (\<lambda>_ _. (2, None)),
      getgrgid = (\<lambda>_. None),
      getenv = (\<lambda>_. None),
      GetShlibDir = \<lparr>m_directory = [], m_filename = []\<rparr>\<rparr>"

section \<open>Properties\<close>

subsection \<open>Facts about strings and paths\<close>

lemma c_str_no_NUL: "NUL \<notin> set s \<Longrightarrow> c_str s = s"
  by (induction s) (auto simp: c_str_def)

lemma GetPath_nonempty: "FileSpec_bool f \<Longrightarrow> GetPath f \<noteq> []"
  by (auto simp: FileSpec_bool_def ConstString_bool_def GetPath_def)

lemma GetPath_FileSpec_bool: "GetPath f \<noteq> [] \<Longrightarrow> FileSpec_bool f"
  by (auto simp: FileSpec_bool_def ConstString_bool_def GetPath_def)

lemma parent_path_example: "parent_path ''/opt/llvm/lib/x86_64'' = ''/opt/llvm/lib''"
  by (simp add: parent_path_def)

subsection \<open>Path derivation\<close>

text \<open>
  Claim C1 says that with the shared-library directory present and its textual parent
  empty, the output's directory is left empty and the call fails. The code does
  otherwise: only the branch that builds \<open>parent + dir\<close> is guarded by the parent being
  non-empty; the assignment to the output's directory and the return come after the
  \<^verbatim>\<open>if\<close>/\<^verbatim>\<open>else\<close> and run on both paths, with \<open>raw_path\<close> still holding the
  shared-library directory's own path. With the shared-library directory \<^verbatim>\<open>/\<close> the
  output's directory becomes \<^verbatim>\<open>/\<close> and the call returns true.
\<close>

theorem ComputePathRelativeToLibrary_root_counterexample:
  "FileSpec_bool
     (GetShlibDir (silent_host\<lparr>GetShlibDir := \<lparr>m_directory = ''/'', m_filename = ''''\<rparr>\<rparr>)) \<and>
   parent_path
     (GetPath (GetShlibDir
        (silent_host\<lparr>GetShlibDir := \<lparr>m_directory = ''/'', m_filename = ''''\<rparr>\<rparr>))) = [] \<and>
   ComputePathRelativeToLibrary
       (silent_host\<lparr>GetShlibDir := \<lparr>m_directory = ''/'', m_filename = ''''\<rparr>\<rparr>)
       \<lparr>m_directory = '''', m_filename = ''''\<rparr> ''/bin''
     = (True, \<lparr>m_directory = ''/'', m_filename = ''''\<rparr>)"
  by (simp add: ComputePathRelativeToLibrary_def Let_def ConstString_bool_def FileSpec_bool_def
      GetPath_def parent_path_def)

text \<open>
  Claim C1, as the code has it: for every call in which the shared-library directory is
  present but its textual parent is empty, the operation writes the shared-library
  directory's own path, unchanged, into the output's directory component, leaves the
  filename component alone, and returns success.
\<close>

theorem ComputePathRelativeToLibrary_empty_parent:
  "FileSpec_bool (GetShlibDir h) \<Longrightarrow> parent_path (GetPath (GetShlibDir h)) = [] \<Longrightarrow>
   ComputePathRelativeToLibrary h file_spec dir =
     (True, file_spec\<lparr>m_directory := GetPath (GetShlibDir h)\<rparr>)"
  by (simp add: ComputePathRelativeToLibrary_def Let_def ConstString_bool_def GetPath_nonempty)

theorem ComputePathRelativeToLibrary_empty_parent_witness:
  "FileSpec_bool
     (GetShlibDir (silent_host\<lparr>GetShlibDir := \<lparr>m_directory = ''/'', m_filename = ''''\<rparr>\<rparr>)) \<and>
   parent_path
     (GetPath (GetShlibDir
        (silent_host\<lparr>GetShlibDir := \<lparr>m_directory = ''/'', m_filename = ''''\<rparr>\<rparr>))) = [] \<and>
   ComputePathRelativeToLibrary
       (silent_host\<lparr>GetShlibDir := \<lparr>m_directory = ''/'', m_filename = ''''\<rparr>\<rparr>)
       \<lparr>m_directory = ''/usr/bin'', m_filename = ''lldb-server''\<rparr> ''/libexec''
     = (True, \<lparr>m_directory = ''/'', m_filename = ''lldb-server''\<rparr>)"
proof -
  let ?h = "silent_host\<lparr>GetShlibDir := \<lparr>m_directory = ''/'', m_filename = ''''\<rparr>\<rparr>"
  have present: "FileSpec_bool (GetShlibDir ?h)"
    by (simp add: FileSpec_bool_def ConstString_bool_def)
  have parent: "parent_path (GetPath (GetShlibDir ?h)) = []"
    by (simp add: GetPath_def parent_path_def)
  show ?thesis
    using present parent
      ComputePathRelativeToLibrary_empty_parent [OF present parent,
        of "\<lparr>m_directory = ''/usr/bin'', m_filename = ''lldb-server''\<rparr>" "''/libexec''"]
    by (simp add: GetPath_def)
qed

text \<open>
  Claim C2: for every call in which the shared-library directory is present and its
  textual parent is non-empty, the output's directory component is set to the parent
  concatenated with the suffix (the filename component stays), and the call returns
  success iff that directory string is non-empty. In particular, when the
  shared-library directory is \<^verbatim>\<open>/opt/llvm/lib/x86_64\<close>, \<open>ComputeSupportExeDirectory\<close>
  sets the output directory to \<^verbatim>\<open>/opt/llvm/lib/bin\<close> and returns true.
\<close>

theorem ComputePathRelativeToLibrary_sibling:
  "(FileSpec_bool (GetShlibDir h) \<and> parent_path (GetPath (GetShlibDir h)) \<noteq> [] \<longrightarrow>
      snd (ComputePathRelativeToLibrary h file_spec dir)
        = file_spec\<lparr>m_directory := parent_path (GetPath (GetShlibDir h)) @ dir\<rparr> \<and>
      fst (ComputePathRelativeToLibrary h file_spec dir)
        = (m_directory (snd (ComputePathRelativeToLibrary h file_spec dir)) \<noteq> [])) \<and>
   (GetPath (GetShlibDir h) = ''/opt/llvm/lib/x86_64'' \<longrightarrow>
      ComputeSupportExeDirectory h file_spec
        = (True, file_spec\<lparr>m_directory := ''/opt/llvm/lib/bin''\<rparr>))"
proof (intro conjI impI)
  assume a: "FileSpec_bool (GetShlibDir h) \<and> parent_path (GetPath (GetShlibDir h)) \<noteq> []"
  then show "snd (ComputePathRelativeToLibrary h file_spec dir)
        = file_spec\<lparr>m_directory := parent_path (GetPath (GetShlibDir h)) @ dir\<rparr>"
    by (simp add: ComputePathRelativeToLibrary_def Let_def)
  from a show "fst (ComputePathRelativeToLibrary h file_spec dir)
        = (m_directory (snd (ComputePathRelativeToLibrary h file_spec dir)) \<noteq> [])"
    by (simp add: ComputePathRelativeToLibrary_def ConstString_bool_def Let_def)
next
  assume p: "GetPath (GetShlibDir h) = ''/opt/llvm/lib/x86_64''"
  then have "GetPath (GetShlibDir h) \<noteq> []" by simp
  then have present: "FileSpec_bool (GetShlibDir h)" by (rule GetPath_FileSpec_bool)
  show "ComputeSupportExeDirectory h file_spec
        = (True, file_spec\<lparr>m_directory := ''/opt/llvm/lib/bin''\<rparr>)"
    using present
    by (simp add: ComputeSupportExeDirectory_def ComputePathRelativeToLibrary_def
        ConstString_bool_def Let_def p parent_path_example)
qed

theorem ComputePathRelativeToLibrary_sibling_witness:
  "FileSpec_bool
     (GetShlibDir (silent_host\<lparr>GetShlibDir :=
        \<lparr>m_directory = ''/opt/llvm/lib/x86_64'', m_filename = ''''\<rparr>\<rparr>)) \<and>
   parent_path
     (GetPath (GetShlibDir (silent_host\<lparr>GetShlibDir :=
        \<lparr>m_directory = ''/opt/llvm/lib/x86_64'', m_filename = ''''\<rparr>\<rparr>))) = ''/opt/llvm/lib'' \<and>
   ComputePathRelativeToLibrary
       (silent_host\<lparr>GetShlibDir := \<lparr>m_directory = ''/opt/llvm/lib/x86_64'', m_filename = ''''\<rparr>\<rparr>)
       \<lparr>m_directory = ''/tmp'', m_filename = ''debugserver''\<rparr> ''/libexec''
     = (True, \<lparr>m_directory = ''/opt/llvm/lib/libexec'', m_filename = ''debugserver''\<rparr>) \<and>
   ComputeSupportExeDirectory
       (silent_host\<lparr>GetShlibDir := \<lparr>m_directory = ''/opt/llvm/lib/x86_64'', m_filename = ''''\<rparr>\<rparr>)
       \<lparr>m_directory = '''', m_filename = ''''\<rparr>
     = (True, \<lparr>m_directory = ''/opt/llvm/lib/bin'', m_filename = ''''\<rparr>)"
proof -
  let ?h = "silent_host\<lparr>GetShlibDir :=
      \<lparr>m_directory = ''/opt/llvm/lib/x86_64'', m_filename = ''''\<rparr>\<rparr>"
  have path: "GetPath (GetShlibDir ?h) = ''/opt/llvm/lib/x86_64''"
    by (simp add: GetPath_def)
  have present: "FileSpec_bool (GetShlibDir ?h)"
    by (simp add: FileSpec_bool_def ConstString_bool_def)
  have parent: "parent_path (GetPath (GetShlibDir ?h)) = ''/opt/llvm/lib''"
    by (simp only: path parent_path_example)
  show ?thesis
    using present parent path
      ComputePathRelativeToLibrary_sibling
        [of ?h "\<lparr>m_directory = ''/tmp'', m_filename = ''debugserver''\<rparr>" "''/libexec''"]
      ComputePathRelativeToLibrary_sibling
        [of ?h "\<lparr>m_directory = '''', m_filename = ''''\<rparr>" "''/bin''"]
    by (simp add: prod_eq_iff)
qed

text \<open>
  Claim C3: for every call in which the shared-library directory cannot be obtained
  from the host-info base (the path it reports tests as false), the operation returns
  failure and the output path is exactly what it was before the call.
\<close>

theorem ComputePathRelativeToLibrary_no_shlib_dir:
  "\<not> FileSpec_bool (GetShlibDir h) \<Longrightarrow>
   ComputePathRelativeToLibrary h file_spec dir = (False, file_spec)"
  by (simp add: ComputePathRelativeToLibrary_def Let_def)

theorem ComputePathRelativeToLibrary_no_shlib_dir_witness:
  "\<not> FileSpec_bool (GetShlibDir silent_host) \<and>
   ComputePathRelativeToLibrary silent_host
       \<lparr>m_directory = ''/usr/bin'', m_filename = ''lldb''\<rparr> ''/bin''
     = (False, \<lparr>m_directory = ''/usr/bin'', m_filename = ''lldb''\<rparr>)"
proof -
  have absent: "\<not> FileSpec_bool (GetShlibDir silent_host)"
    by (simp add: silent_host_def FileSpec_bool_def ConstString_bool_def)
  show ?thesis
    using absent ComputePathRelativeToLibrary_no_shlib_dir [OF absent]
    by simp
qed

text \<open>
  Claim C8: for every incoming value of the output path, \<open>ComputeHeaderDirectory\<close> sets
  the directory component to the literal \<^verbatim>\<open>/opt/local/include/lldb\<close> and returns success;
  applying it to its own output gives the same result as applying it once.
\<close>

theorem ComputeHeaderDirectory_fixed:
  "ComputeHeaderDirectory file_spec
     = (True, file_spec\<lparr>m_directory := ''/opt/local/include/lldb''\<rparr>) \<and>
   ComputeHeaderDirectory (snd (ComputeHeaderDirectory file_spec))
     = ComputeHeaderDirectory file_spec"
  by (simp add: ComputeHeaderDirectory_def FileSpec_of_path_def GetPath_def parent_path_def
      filename_def c_str_def NUL_def)

subsection \<open>The POSIX facade\<close>

text \<open>
  Claim C5: for every call, \<open>GetHostname\<close> returns failure iff the kernel's node-name
  query fails (a non-zero return code). When the query succeeds the call returns
  success, with the canonical name when the forward resolution of the node name
  succeeds and with the raw node name when it does not.
\<close>

theorem GetHostname_result:
  "gethostname h (PATH_MAX b - 1) = (rc, node) \<Longrightarrow>
   (fst (GetHostname b h s) = False \<longleftrightarrow> rc \<noteq> 0) \<and>
   (rc = 0 \<longrightarrow>
      (\<forall>e. gethostbyname h node = Some e \<longrightarrow> GetHostname b h s = (True, h_name e)) \<and>
      (gethostbyname h node = None \<longrightarrow> GetHostname b h s = (True, node)))"
  by (cases "gethostbyname h node") (simp_all add: GetHostname_def)

theorem GetHostname_result_witness:
  "GetHostname linux_build
     (silent_host\<lparr>gethostname := (\<lambda>_. (0, ''build42'')),
        gethostbyname :=
          (\<lambda>n. if n = ''build42'' then Some \<lparr>h_name = ''build42.example.org''\<rparr> else None)\<rparr>)
     ''old'' = (True, ''build42.example.org'') \<and>
   GetHostname linux_build (silent_host\<lparr>gethostname := (\<lambda>_. (0, ''build42''))\<rparr>) ''old''
     = (True, ''build42'') \<and>
   fst (GetHostname linux_build silent_host ''old'') = False"
proof -
  let ?named = "silent_host\<lparr>gethostname := (\<lambda>_. (0, ''build42''))\<rparr>"
  let ?resolving = "silent_host\<lparr>gethostname := (\<lambda>_. (0, ''build42'')),
      gethostbyname :=
        (\<lambda>n. if n = ''build42'' then Some \<lparr>h_name = ''build42.example.org''\<rparr> else None)\<rparr>"
  have q1: "gethostname ?resolving (PATH_MAX linux_build - 1) = (0, ''build42'')"
    by simp
  have r1: "gethostbyname ?resolving ''build42'' = Some \<lparr>h_name = ''build42.example.org''\<rparr>"
    by simp
  have q2: "gethostname ?named (PATH_MAX linux_build - 1) = (0, ''build42'')"
    by simp
  have r2: "gethostbyname ?named ''build42'' = None"
    by (simp add: silent_host_def)
  have q3: "gethostname silent_host (PATH_MAX linux_build - 1) = (- 1, [])"
    by (simp add: silent_host_def)
  show ?thesis
    using r1 r2
      GetHostname_result [OF q1, of "''old''"]
      GetHostname_result [OF q2, of "''old''"]
      GetHostname_result [OF q3, of "''old''"]
    by simp
qed

text \<open>
  Claim C4: for every call, \<open>GetEnvironmentVar\<close> returns true iff the variable is set in
  the process environment, and when it returns true the value handed back equals the
  environment's value for that name. The environment is keyed by C strings and the
  name reaches it through \<^verbatim>\<open>c_str()\<close>, so the variable looked up is the one named by the
  bytes of \<open>var_name\<close> before its first NUL; for a name without a NUL byte, which is
  every name a variable can have, that is \<open>var_name\<close> itself, and the last conjunct
  states the claim for such names without mention of \<open>c_str\<close>.
\<close>

theorem GetEnvironmentVar_present:
  "(fst (GetEnvironmentVar h var_name var) \<longleftrightarrow> getenv h (c_str var_name) \<noteq> None) \<and>
   (fst (GetEnvironmentVar h var_name var) \<longrightarrow>
      getenv h (c_str var_name) = Some (snd (GetEnvironmentVar h var_name var))) \<and>
   (NUL \<notin> set var_name \<longrightarrow>
      (fst (GetEnvironmentVar h var_name var) \<longleftrightarrow> getenv h var_name \<noteq> None) \<and>
      (fst (GetEnvironmentVar h var_name var) \<longrightarrow>
         getenv h var_name = Some (snd (GetEnvironmentVar h var_name var))))"
proof -
  have general:
    "(fst (GetEnvironmentVar h var_name var) \<longleftrightarrow> getenv h (c_str var_name) \<noteq> None) \<and>
     (fst (GetEnvironmentVar h var_name var) \<longrightarrow>
        getenv h (c_str var_name) = Some (snd (GetEnvironmentVar h var_name var)))"
    by (cases "getenv h (c_str var_name)") (simp_all add: GetEnvironmentVar_def)
  then show ?thesis
    by (auto simp: c_str_no_NUL)
qed

theorem GetEnvironmentVar_present_witness:
  "NUL \<notin> set ''TEST_VAR'' \<and>
   GetEnvironmentVar (silent_host\<lparr>getenv := [''TEST_VAR'' \<mapsto> ''hello'']\<rparr>) ''TEST_VAR'' ''old''
     = (True, ''hello'') \<and>
   \<not> fst (GetEnvironmentVar silent_host ''TEST_VAR'' ''old'')"
proof -
  let ?h = "silent_host\<lparr>getenv := [''TEST_VAR'' \<mapsto> ''hello'']\<rparr>"
  have name: "NUL \<notin> set ''TEST_VAR''"
    by (simp add: NUL_def)
  have bound: "getenv ?h ''TEST_VAR'' = Some ''hello''"
    by simp
  have unbound: "getenv silent_host ''TEST_VAR'' = None"
    by (simp add: silent_host_def)
  have ok: "fst (GetEnvironmentVar ?h ''TEST_VAR'' ''old'')"
    using GetEnvironmentVar_present [of ?h "''TEST_VAR''" "''old''"] name bound by blast
  have "getenv ?h ''TEST_VAR'' = Some (snd (GetEnvironmentVar ?h ''TEST_VAR'' ''old''))"
    using GetEnvironmentVar_present [of ?h "''TEST_VAR''" "''old''"] name ok by blast
  with bound have val: "snd (GetEnvironmentVar ?h ''TEST_VAR'' ''old'') = ''hello''"
    by simp
  have no: "\<not> fst (GetEnvironmentVar silent_host ''TEST_VAR'' ''old'')"
    using GetEnvironmentVar_present [of silent_host "''TEST_VAR''" "''old''"] name unbound
    by blast
  from ok val have "GetEnvironmentVar ?h ''TEST_VAR'' ''old'' = (True, ''hello'')"
    by (simp add: prod_eq_iff)
  with name no show ?thesis
    by blast
qed

text \<open>
  Claim C9: for every call to \<open>GetEnvironmentVar\<close> in which the variable is not set, the
  call returns false and the caller's output string keeps the value it had before the
  call.
\<close>

theorem GetEnvironmentVar_absent:
  "getenv h (c_str var_name) = None \<Longrightarrow> GetEnvironmentVar h var_name var = (False, var)"
  by (simp add: GetEnvironmentVar_def)

theorem GetEnvironmentVar_absent_witness:
  "getenv silent_host (c_str ''TEST_VAR'') = None \<and>
   GetEnvironmentVar silent_host ''TEST_VAR'' ''kept'' = (False, ''kept'')"
proof -
  have unset: "getenv silent_host (c_str ''TEST_VAR'') = None"
    by (simp add: silent_host_def)
  show ?thesis
    using unset GetEnvironmentVar_absent [OF unset, of "''kept''"]
    by simp
qed

subsection \<open>The user and group name resolver\<close>

text \<open>
  Claim C7: for every uid, on a build with the reentrant lookup, \<open>DoGetUserName\<close> takes a
  zero return code together with a non-null result pointer as success and returns the
  entry's name field; in every other outcome it returns the empty optional. The result
  type has no error value: the only way to report a missing entry is the empty
  optional. In particular a uid absent from the user database (a null result pointer,
  whatever the return code) yields the empty optional.
\<close>

theorem DoGetUserName_reentrant:
  "\<not> USE_GETPWUID b \<Longrightarrow> getpwuid_r h uid (PATH_MAX b) = (rc, user_info_ptr) \<Longrightarrow>
   (\<forall>user_info. rc = 0 \<and> user_info_ptr = Some user_info \<longrightarrow>
      DoGetUserName b h uid = (Some (pw_name user_info), [Call_getpwuid_r uid])) \<and>
   (\<not> (rc = 0 \<and> user_info_ptr \<noteq> None) \<longrightarrow>
      DoGetUserName b h uid = (None, [Call_getpwuid_r uid])) \<and>
   (user_info_ptr = None \<longrightarrow> fst (DoGetUserName b h uid) = None)"
  by (auto simp: DoGetUserName_def)

theorem DoGetUserName_reentrant_witness:
  "\<not> USE_GETPWUID linux_build \<and>
   DoGetUserName linux_build
     (silent_host\<lparr>getpwuid_r :=
        (\<lambda>uid _. if uid = 0 then (0, Some \<lparr>pw_name = ''root''\<rparr>) else (0, None))\<rparr>) 0
     = (Some ''root'', [Call_getpwuid_r 0]) \<and>
   DoGetUserName linux_build
     (silent_host\<lparr>getpwuid_r :=
        (\<lambda>uid _. if uid = 0 then (0, Some \<lparr>pw_name = ''root''\<rparr>) else (0, None))\<rparr>)
     0xFFFFFFFE
     = (None, [Call_getpwuid_r 0xFFFFFFFE]) \<and>
   fst (DoGetUserName linux_build silent_host 0xFFFFFFFE) = None"
proof -
  let ?h = "silent_host\<lparr>getpwuid_r :=
      (\<lambda>uid _. if uid = 0 then (0, Some \<lparr>pw_name = ''root''\<rparr>) else (0, None))\<rparr>"
  have platform: "\<not> USE_GETPWUID linux_build"
    by (simp add: USE_GETPWUID_def linux_build_def)
  have root: "getpwuid_r ?h 0 (PATH_MAX linux_build) = (0, Some \<lparr>pw_name = ''root''\<rparr>)"
    by simp
  have unassigned: "getpwuid_r ?h 0xFFFFFFFE (PATH_MAX linux_build) = (0, None)"
    by simp
  have failing: "getpwuid_r silent_host 0xFFFFFFFE (PATH_MAX linux_build) = (2, None)"
    by (simp add: silent_host_def)
  show ?thesis
    using platform
      DoGetUserName_reentrant [OF platform root]
      DoGetUserName_reentrant [OF platform unassigned]
      DoGetUserName_reentrant [OF platform failing]
    by simp
qed

text \<open>
  Claim C6: for every gid, on a build that has the group lookup, \<open>DoGetGroupName\<close>
  returns the group name when the reentrant lookup returns zero with a non-null result
  pointer; when the reentrant lookup returns non-zero it calls the non-reentrant
  lookup, once, and returns the name if that call finds an entry; in the two remaining
  outcomes (zero with a null pointer; non-zero and the retry finds nothing) it returns
  the empty optional. The four cases are exhaustive, and each gives the lookups issued.
\<close>

theorem DoGetGroupName_lookup_order:
  "\<not> ANDROID b \<Longrightarrow> getgrgid_r h gid (PATH_MAX b) = (rc, group_info_ptr) \<Longrightarrow>
   (\<forall>group_info. rc = 0 \<and> group_info_ptr = Some group_info \<longrightarrow>
      DoGetGroupName b h gid = Inr (Some (gr_name group_info), [Call_getgrgid_r gid])) \<and>
   (\<forall>group_info. rc \<noteq> 0 \<and> getgrgid h gid = Some group_info \<longrightarrow>
      DoGetGroupName b h gid
        = Inr (Some (gr_name group_info), [Call_getgrgid_r gid, Call_getgrgid gid])) \<and>
   (rc = 0 \<and> group_info_ptr = None \<longrightarrow>
      DoGetGroupName b h gid = Inr (None, [Call_getgrgid_r gid])) \<and>
   (rc \<noteq> 0 \<and> getgrgid h gid = None \<longrightarrow>
      DoGetGroupName b h gid = Inr (None, [Call_getgrgid_r gid, Call_getgrgid gid]))"
  by (simp add: DoGetGroupName_def)

theorem DoGetGroupName_lookup_order_witness:
  "\<not> ANDROID linux_build \<and>
   DoGetGroupName linux_build
     (silent_host\<lparr>getgrgid_r := (\<lambda>_ _. (0, Some \<lparr>gr_name = ''root''\<rparr>))\<rparr>) 0
     = Inr (Some ''root'', [Call_getgrgid_r 0]) \<and>
   DoGetGroupName linux_build
     (silent_host\<lparr>getgrgid := (\<lambda>_. Some \<lparr>gr_name = ''wheel''\<rparr>)\<rparr>) 0
     = Inr (Some ''wheel'', [Call_getgrgid_r 0, Call_getgrgid 0]) \<and>
   DoGetGroupName linux_build (silent_host\<lparr>getgrgid_r := (\<lambda>_ _. (0, None))\<rparr>) 7
     = Inr (None, [Call_getgrgid_r 7]) \<and>
   DoGetGroupName linux_build silent_host 7 = Inr (None, [Call_getgrgid_r 7, Call_getgrgid 7])"
proof -
  let ?reentrant = "silent_host\<lparr>getgrgid_r := (\<lambda>_ _. (0, Some \<lparr>gr_name = ''root''\<rparr>))\<rparr>"
  let ?fallback = "silent_host\<lparr>getgrgid := (\<lambda>_. Some \<lparr>gr_name = ''wheel''\<rparr>)\<rparr>"
  let ?unknown = "silent_host\<lparr>getgrgid_r := (\<lambda>_ _. (0, None))\<rparr>"
  have platform: "\<not> ANDROID linux_build"
    by (simp add: ANDROID_def linux_build_def)
  have found: "getgrgid_r ?reentrant 0 (PATH_MAX linux_build) = (0, Some \<lparr>gr_name = ''root''\<rparr>)"
    by simp
  have broken: "getgrgid_r ?fallback 0 (PATH_MAX linux_build) = (2, None)"
    by (simp add: silent_host_def)
  have retry: "getgrgid ?fallback 0 = Some \<lparr>gr_name = ''wheel''\<rparr>"
    by simp
  have missing: "getgrgid_r ?unknown 7 (PATH_MAX linux_build) = (0, None)"
    by simp
  have failing: "getgrgid_r silent_host 7 (PATH_MAX linux_build) = (2, None)"
    by (simp add: silent_host_def)
  have no_entry: "getgrgid silent_host 7 = None"
    by (simp add: silent_host_def)
  have first: "DoGetGroupName linux_build ?reentrant 0 = Inr (Some ''root'', [Call_getgrgid_r 0])"
    using DoGetGroupName_lookup_order [OF platform found] by simp
  have second: "DoGetGroupName linux_build ?fallback 0
      = Inr (Some ''wheel'', [Call_getgrgid_r 0, Call_getgrgid 0])"
    using DoGetGroupName_lookup_order [OF platform broken] retry by simp
  have third: "DoGetGroupName linux_build ?unknown 7 = Inr (None, [Call_getgrgid_r 7])"
    using DoGetGroupName_lookup_order [OF platform missing] by simp
  have fourth: "DoGetGroupName linux_build silent_host 7
      = Inr (None, [Call_getgrgid_r 7, Call_getgrgid 7])"
    using DoGetGroupName_lookup_order [OF platform failing] no_entry by simp
  from platform first second third fourth show ?thesis
    by blast
qed

text \<open>
  Claim C10: for every gid, when the reentrant group lookup returns zero but yields a
  null result pointer, \<open>DoGetGroupName\<close> returns the empty optional and the reentrant
  lookup is the only lookup it issues; the call always returns, and the non-reentrant
  lookup is among the lookups it issued iff the reentrant return code was non-zero.
\<close>

theorem DoGetGroupName_no_fallback_on_null:
  "\<not> ANDROID b \<Longrightarrow> getgrgid_r h gid (PATH_MAX b) = (rc, group_info_ptr) \<Longrightarrow>
   (rc = 0 \<and> group_info_ptr = None \<longrightarrow>
      DoGetGroupName b h gid = Inr (None, [Call_getgrgid_r gid])) \<and>
   (\<exists>name calls. DoGetGroupName b h gid = Inr (name, calls) \<and>
      ((\<exists>g. Call_getgrgid g \<in> set calls) \<longleftrightarrow> rc \<noteq> 0))"
  by (cases "getgrgid h gid"; cases group_info_ptr) (auto simp: DoGetGroupName_def)

theorem DoGetGroupName_no_fallback_on_null_witness:
  "\<not> ANDROID linux_build \<and>
   DoGetGroupName linux_build
     (silent_host\<lparr>getgrgid_r := (\<lambda>_ _. (0, None)),
        getgrgid := (\<lambda>_. Some \<lparr>gr_name = ''staff''\<rparr>)\<rparr>) 20
     = Inr (None, [Call_getgrgid_r 20]) \<and>
   (\<exists>name calls. DoGetGroupName linux_build silent_host 20 = Inr (name, calls) \<and>
      (\<exists>g. Call_getgrgid g \<in> set calls))"
proof -
  let ?h = "silent_host\<lparr>getgrgid_r := (\<lambda>_ _. (0, None)),
      getgrgid := (\<lambda>_. Some \<lparr>gr_name = ''staff''\<rparr>)\<rparr>"
  have platform: "\<not> ANDROID linux_build"
    by (simp add: ANDROID_def linux_build_def)
  have missing: "getgrgid_r ?h 20 (PATH_MAX linux_build) = (0, None)"
    by simp
  have failing: "getgrgid_r silent_host 20 (PATH_MAX linux_build) = (2, None)"
    by (simp add: silent_host_def)
  have skipped: "DoGetGroupName linux_build ?h 20 = Inr (None, [Call_getgrgid_r 20])"
    using DoGetGroupName_no_fallback_on_null [OF platform missing] by simp
  have attempted: "\<exists>name calls. DoGetGroupName linux_build silent_host 20 = Inr (name, calls) \<and>
      (\<exists>g. Call_getgrgid g \<in> set calls)"
    using DoGetGroupName_no_fallback_on_null [OF platform failing] by simp
  from platform skipped attempted show ?thesis
    by blast
qed

end
